theory Spec2Isabelle
  imports Main "HOL-Library.AList"
begin

section \<open>Values exchanged with the browser and the identity service\<close>

text \<open>
  A JavaScript value that is either a string or absent (\<open>null\<close> from
  \<open>localStorage.getItem\<close>, \<open>undefined\<close> for a missing field of
  \<open>response.data\<close>) is a \<open>string option\<close>. The tests \<open>if (token)\<close> and
  \<open>if (!token)\<close> of the source read its truthiness: an absent value and the empty
  string are both falsy.
\<close>

definition truthy :: "string option \<Rightarrow> bool" where
  "truthy v = (case v of None \<Rightarrow> False | Some t \<Rightarrow> t \<noteq> [])"

text \<open>
  \<open>localStorage.setItem(key, value)\<close> stores the string conversion of its
  argument: an absent field is stored as the text \<open>undefined\<close>.
\<close>

definition toString :: "string option \<Rightarrow> string" where
  "toString v = (case v of None \<Rightarrow> ''undefined'' | Some t \<Rightarrow> t)"

text \<open>\<open>localStorage\<close>: string keys to string values.\<close>

type_synonym storage = "string \<rightharpoonup> string"

definition getItem :: "storage \<Rightarrow> string \<Rightarrow> string option" where
  "getItem ls k = ls k"

definition setItem :: "storage \<Rightarrow> string \<Rightarrow> string \<Rightarrow> storage" where
  "setItem ls k v = ls(k \<mapsto> v)"

definition removeItem :: "storage \<Rightarrow> string \<Rightarrow> storage" where
  "removeItem ls k = ls(k := None)"

text \<open>
  The user record returned by \<open>GET /auth/me\<close> (interface \<open>User\<close>). Its field
  \<open>id\<close> is \<open>user_id\<close> here, \<open>id\<close> being the identity function of HOL.
\<close>

record user =
  user_id :: string
  username :: string
  full_name :: string
  is_admin :: bool
  created_at :: string
  updated_at :: string

text \<open>\<open>response.data\<close> of \<open>POST /auth/login\<close>: either field may be missing.\<close>

record login_data =
  data_access_token :: "string option"
  data_refresh_token :: "string option"

text \<open>
  How an awaited \<open>axios\<close> call settles: fulfilled with \<open>response.data\<close>, or
  rejected with an error whose \<open>err.response?.status\<close> is a status code, or is
  absent when no response arrived (network failure, timeout).
\<close>

datatype 'a settled = Fulfilled 'a | Rejected "nat option"

text \<open>The HTTP calls the source issues, with the bearer token they carry.\<close>

datatype request =
    POST_login string string
  | GET_me string
  | POST_logout string "string option"
  | PUT_password string string string

section \<open>AuthContext.jsx: the AuthProvider\<close>

record browser =
  localStorage :: storage

record AuthProvider = browser +
  user :: "user option"
  loading :: bool

text \<open>\<open>useState(null)\<close>, \<open>useState(true)\<close> over the storage found at start.\<close>

definition AuthProvider_init :: "storage \<Rightarrow> AuthProvider" where
  "AuthProvider_init ls = \<lparr>localStorage = ls, user = None, loading = True\<rparr>"

text \<open>\<open>isAuthenticated: !!user\<close>\<close>

definition isAuthenticated :: "AuthProvider \<Rightarrow> bool" where
  "isAuthenticated s = (user s \<noteq> None)"

text \<open>
  An async function is split where it awaits. \<open>fetchUser_start\<close> runs \<open>fetchUser\<close>
  up to \<open>await axios.get\<close> and returns the request it is waiting for, or \<open>None\<close>
  when it returned without a network call (the \<open>finally\<close> block has then run).
  \<open>fetchUser_resume\<close> is the rest of the body, run on the state of the moment the
  request settles. \<open>fetchUser\<close> is the two run back to back.
\<close>

definition fetchUser_start :: "AuthProvider \<Rightarrow> AuthProvider \<times> request option" where
  "fetchUser_start s =
     (let token = getItem (localStorage s) ''access_token'' in
      if \<not> truthy token then (s\<lparr>loading := False\<rparr>, None)
      else (s, Some (GET_me (the token))))"

definition fetchUser_resume :: "AuthProvider \<Rightarrow> user settled \<Rightarrow> AuthProvider" where
  "fetchUser_resume s r =
     (case r of
        Fulfilled data \<Rightarrow> s\<lparr>user := Some data, loading := False\<rparr>
      | Rejected status \<Rightarrow>
          if status = Some 401
          then s\<lparr>localStorage :=
                    removeItem (removeItem (localStorage s) ''access_token'') ''refresh_token'',
                  user := None, loading := False\<rparr>
          else s\<lparr>loading := False\<rparr>)"

definition fetchUser :: "AuthProvider \<Rightarrow> user settled \<Rightarrow> AuthProvider" where
  "fetchUser s r =
     (case fetchUser_start s of
        (s', None) \<Rightarrow> s'
      | (s', Some q) \<Rightarrow> fetchUser_resume s' r)"

text \<open>
  \<open>login\<close>: the outcome of \<open>POST /auth/login\<close> and of the identity fetch that
  follows are the arguments \<open>r\<close> and \<open>me\<close>. A rejected post throws out of \<open>login\<close>
  (\<open>Inl\<close>, with the status of the error); otherwise \<open>login\<close> returns a boolean.
\<close>

datatype thrown = AxiosError "nat option"

definition login_request :: "string \<Rightarrow> string \<Rightarrow> request" where
  "login_request name password = POST_login name password"

definition login ::
  "AuthProvider \<Rightarrow> string \<Rightarrow> string \<Rightarrow> login_data settled \<Rightarrow> user settled
     \<Rightarrow> (thrown + bool) \<times> AuthProvider" where
  "login s name password r me =
     (case r of
        Rejected status \<Rightarrow> (Inl (AxiosError status), s)
      | Fulfilled data \<Rightarrow>
          if truthy (data_access_token data)
          then (let ls1 = setItem (localStorage s) ''access_token''
                            (toString (data_access_token data));
                    ls2 = setItem ls1 ''refresh_token'' (toString (data_refresh_token data))
                in (Inr True, fetchUser (s\<lparr>localStorage := ls2\<rparr>) me))
          else (Inr False, s))"

text \<open>
  \<open>logout\<close>: with a truthy access token it awaits the revoke call inside \<open>try\<close>;
  the \<open>catch\<close> only logs, and the \<open>finally\<close> block clears both tokens and the user
  once the call has settled. With no token the \<open>finally\<close> block runs at once.
\<close>

definition logout_finally :: "AuthProvider \<Rightarrow> AuthProvider" where
  "logout_finally s =
     s\<lparr>localStorage :=
         removeItem (removeItem (localStorage s) ''access_token'') ''refresh_token'',
       user := None\<rparr>"

definition logout_start :: "AuthProvider \<Rightarrow> AuthProvider \<times> request option" where
  "logout_start s =
     (let token = getItem (localStorage s) ''access_token'';
          refreshToken = getItem (localStorage s) ''refresh_token'' in
      if truthy token then (s, Some (POST_logout (the token) refreshToken))
      else (logout_finally s, None))"

definition logout_resume :: "AuthProvider \<Rightarrow> unit settled \<Rightarrow> AuthProvider" where
  "logout_resume s r = (case r of Fulfilled u \<Rightarrow> logout_finally s | Rejected status \<Rightarrow> logout_finally s)"

definition logout :: "AuthProvider \<Rightarrow> unit settled \<Rightarrow> AuthProvider" where
  "logout s r =
     (case logout_start s of
        (s', None) \<Rightarrow> s'
      | (s', Some q) \<Rightarrow> logout_resume s' r)"

section \<open>The page components\<close>

text \<open>
  The pages reach the login and home routes through \<open>router.push\<close> (or \<open>navigate\<close>
  in the react-router variant); \<open>pushed\<close> lists the routes pushed so far, oldest first.
\<close>

record routed = browser +
  pushed :: "string list"

text \<open>
  The user-visible messages of the source are Japanese literals. Each is a named constant
  here; the components only ever test such a message for being non-empty.
\<close>

definition msg_fetch_failed :: string where
  "msg_fetch_failed = ''could not get the user information''"

definition msg_login_failed :: string where
  "msg_login_failed = ''login failed, check user name and password''"

subsection \<open>The dashboard: app/home/page.tsx (HomePage) and the react-router Home\<close>

text \<open>
  \<open>HomePage\<close> (app/home/page.tsx) and \<open>Home\<close> (the react-router variant among the
  unnamed sources) have the same state and the same two functions, statement for
  statement, one calling \<open>router.push\<close> and the other \<open>navigate\<close>.
\<close>

record HomePage = routed +
  hp_user :: "user option"
  hp_loading :: bool
  hp_error :: string

definition HomePage_init :: "storage \<Rightarrow> HomePage" where
  "HomePage_init ls =
     \<lparr>localStorage = ls, pushed = [], hp_user = None, hp_loading = True, hp_error = []\<rparr>"

definition fetchUserInfo_start :: "HomePage \<Rightarrow> HomePage \<times> request option" where
  "fetchUserInfo_start s =
     (let token = getItem (localStorage s) ''access_token'' in
      if \<not> truthy token
      then (s\<lparr>pushed := pushed s @ [''/login''], hp_loading := False\<rparr>, None)
      else (s, Some (GET_me (the token))))"

definition fetchUserInfo_resume :: "HomePage \<Rightarrow> user settled \<Rightarrow> HomePage" where
  "fetchUserInfo_resume s r =
     (case r of
        Fulfilled data \<Rightarrow> s\<lparr>hp_user := Some data, hp_loading := False\<rparr>
      | Rejected status \<Rightarrow>
          if status = Some 401
          then s\<lparr>localStorage :=
                    removeItem (removeItem (localStorage s) ''access_token'') ''refresh_token'',
                  pushed := pushed s @ [''/login''], hp_loading := False\<rparr>
          else s\<lparr>hp_error := msg_fetch_failed, hp_loading := False\<rparr>)"

definition fetchUserInfo :: "HomePage \<Rightarrow> user settled \<Rightarrow> HomePage" where
  "fetchUserInfo s r =
     (case fetchUserInfo_start s of
        (s', None) \<Rightarrow> s'
      | (s', Some q) \<Rightarrow> fetchUserInfo_resume s' r)"

text \<open>What a component returns from its render.\<close>

datatype view =
    LoadingView
  | ErrorView string
  | DashboardView "user option"
  | PasswordFormView

definition HomePage_render :: "HomePage \<Rightarrow> view" where
  "HomePage_render s =
     (if hp_loading s then LoadingView
      else if hp_error s \<noteq> [] then ErrorView (hp_error s)
      else DashboardView (hp_user s))"

text \<open>
  \<open>handleLogout\<close> is the same body in \<open>HomePage\<close>, \<open>Home\<close> and \<open>Navbar\<close>: the
  revoke call is awaited inside \<open>try\<close>, the \<open>catch\<close> logs, and the \<open>finally\<close> block
  removes both tokens and pushes the login route.
\<close>

definition handleLogout_finally :: "'a routed_scheme \<Rightarrow> 'a routed_scheme" where
  "handleLogout_finally s =
     s\<lparr>localStorage :=
         removeItem (removeItem (localStorage s) ''access_token'') ''refresh_token'',
       pushed := pushed s @ [''/login'']\<rparr>"

definition handleLogout_start :: "'a routed_scheme \<Rightarrow> 'a routed_scheme \<times> request option" where
  "handleLogout_start s =
     (let token = getItem (localStorage s) ''access_token'';
          refreshToken = getItem (localStorage s) ''refresh_token'' in
      if truthy token then (s, Some (POST_logout (the token) refreshToken))
      else (handleLogout_finally s, None))"

definition handleLogout_resume :: "'a routed_scheme \<Rightarrow> unit settled \<Rightarrow> 'a routed_scheme" where
  "handleLogout_resume s r =
     (case r of Fulfilled u \<Rightarrow> handleLogout_finally s
              | Rejected status \<Rightarrow> handleLogout_finally s)"

definition handleLogout :: "'a routed_scheme \<Rightarrow> unit settled \<Rightarrow> 'a routed_scheme" where
  "handleLogout s r =
     (case handleLogout_start s of
        (s', None) \<Rightarrow> s'
      | (s', Some q) \<Rightarrow> handleLogout_resume s' r)"

subsection \<open>components/Navbar\<close>

record Navbar = routed +
  nb_user :: "user option"

definition Navbar_init :: "user option \<Rightarrow> storage \<Rightarrow> Navbar" where
  "Navbar_init currentUser ls = \<lparr>localStorage = ls, pushed = [], nb_user = currentUser\<rparr>"

definition Navbar_fetchUserInfo_start :: "Navbar \<Rightarrow> Navbar \<times> request option" where
  "Navbar_fetchUserInfo_start s =
     (let token = getItem (localStorage s) ''access_token'' in
      if \<not> truthy token then (s, None)
      else (s, Some (GET_me (the token))))"

definition Navbar_fetchUserInfo_resume :: "Navbar \<Rightarrow> user settled \<Rightarrow> Navbar" where
  "Navbar_fetchUserInfo_resume s r =
     (case r of
        Fulfilled data \<Rightarrow> s\<lparr>nb_user := Some data\<rparr>
      | Rejected status \<Rightarrow> s)"

definition Navbar_fetchUserInfo :: "Navbar \<Rightarrow> user settled \<Rightarrow> Navbar" where
  "Navbar_fetchUserInfo s r =
     (case Navbar_fetchUserInfo_start s of
        (s', None) \<Rightarrow> s'
      | (s', Some q) \<Rightarrow> Navbar_fetchUserInfo_resume s' r)"

text \<open>The effect of the Navbar: \<open>if (!currentUser) fetchUserInfo()\<close>.\<close>

definition Navbar_useEffect :: "user option \<Rightarrow> Navbar \<Rightarrow> user settled \<Rightarrow> Navbar" where
  "Navbar_useEffect currentUser s r =
     (if currentUser = None then Navbar_fetchUserInfo s r else s)"

subsection \<open>pages/Login.jsx\<close>

record Login = routed +
  lg_error :: string
  lg_loading :: bool

definition Login_handleSubmit ::
  "Login \<Rightarrow> string \<Rightarrow> string \<Rightarrow> login_data settled \<Rightarrow> Login" where
  "Login_handleSubmit s name password r =
     (let s1 = s\<lparr>lg_loading := True, lg_error := []\<rparr> in
      case r of
        Fulfilled data \<Rightarrow>
          if truthy (data_access_token data)
          then (let ls1 = setItem (localStorage s1) ''access_token''
                            (toString (data_access_token data));
                    ls2 = setItem ls1 ''refresh_token'' (toString (data_refresh_token data))
                in s1\<lparr>localStorage := ls2, pushed := pushed s1 @ [''/home''],
                      lg_loading := False\<rparr>)
          else s1\<lparr>lg_loading := False\<rparr>
      | Rejected status \<Rightarrow> s1\<lparr>lg_error := msg_login_failed, lg_loading := False\<rparr>)"

subsection \<open>app/change-password/page.tsx\<close>

record form_data =
  oldPassword :: string
  newPassword :: string
  confirmPassword :: string

text \<open>
  \<open>errors\<close> is an object from field names to messages, kept as an association list
  in insertion order; assigning to a key that is already there replaces its value.
  \<open>timers\<close> lists the routes that a \<open>setTimeout\<close> callback will push.
\<close>

record ChangePasswordPage = routed +
  formData :: form_data
  errors :: "(string \<times> string) list"
  isLoading :: bool
  message :: string
  timers :: "string list"

definition blank_form :: form_data where
  "blank_form = \<lparr>oldPassword = [], newPassword = [], confirmPassword = []\<rparr>"

definition ChangePasswordPage_init :: "storage \<Rightarrow> ChangePasswordPage" where
  "ChangePasswordPage_init ls =
     \<lparr>localStorage = ls, pushed = [], formData = blank_form, errors = [],
      isLoading = False, message = [], timers = []\<rparr>"

definition msg_old_required :: string where
  "msg_old_required = ''enter the current password''"

definition msg_new_required :: string where
  "msg_new_required = ''enter the new password''"

definition msg_new_too_short :: string where
  "msg_new_too_short = ''the password needs 6 characters or more''"

definition msg_confirm_required :: string where
  "msg_confirm_required = ''enter the confirmation''"

definition msg_mismatch :: string where
  "msg_mismatch = ''the passwords do not match''"

definition msg_same_as_old :: string where
  "msg_same_as_old = ''the new password must differ from the current one''"

definition msg_updated :: string where
  "msg_updated = ''the password was updated''"

definition msg_update_failed :: string where
  "msg_update_failed = ''the password update failed''"

definition msg_network_error :: string where
  "msg_network_error = ''a network error occurred''"

text \<open>
  \<open>validateForm\<close> builds \<open>newErrors\<close> by four statements in turn, stores it with
  \<open>setErrors\<close> and returns whether it has no key.
\<close>

definition newErrors :: "form_data \<Rightarrow> (string \<times> string) list" where
  "newErrors f =
     (let e0 = [];
          e1 = (if oldPassword f = [] then AList.update ''oldPassword'' msg_old_required e0
                else e0);
          e2 = (if newPassword f = [] then AList.update ''newPassword'' msg_new_required e1
                else if length (newPassword f) < 6
                then AList.update ''newPassword'' msg_new_too_short e1
                else e1);
          e3 = (if confirmPassword f = []
                then AList.update ''confirmPassword'' msg_confirm_required e2
                else if newPassword f \<noteq> confirmPassword f
                then AList.update ''confirmPassword'' msg_mismatch e2
                else e2);
          e4 = (if oldPassword f = newPassword f
                then AList.update ''newPassword'' msg_same_as_old e3
                else e3)
      in e4)"

definition validateForm :: "ChangePasswordPage \<Rightarrow> ChangePasswordPage \<times> bool" where
  "validateForm s =
     (let e = newErrors (formData s) in
      (s\<lparr>errors := e\<rparr>, length (map fst e) = 0))"

text \<open>
  How the awaited \<open>fetch\<close> settles: with a response, whose body parses as JSON with
  an optional \<open>detail\<close> or does not parse (\<open>response.json()\<close> then throws), or with a
  rejection when the network fails.
\<close>

datatype body = NotJson | Json "string option"

datatype fetched = Response nat body | NetworkFailure

definition response_ok :: "nat \<Rightarrow> bool" where
  "response_ok status = (200 \<le> status \<and> status \<le> 299)"

definition handleSubmit_start ::
  "ChangePasswordPage \<Rightarrow> ChangePasswordPage \<times> request option" where
  "handleSubmit_start s =
     (case validateForm s of
        (s1, valid) \<Rightarrow>
          if \<not> valid then (s1, None)
          else
            (let s2 = s1\<lparr>isLoading := True, message := []\<rparr>;
                 token = getItem (localStorage s2) ''access_token'' in
             if \<not> truthy token
             then (s2\<lparr>pushed := pushed s2 @ [''/login''], isLoading := False\<rparr>, None)
             else (s2, Some (PUT_password (the token) (oldPassword (formData s2))
                               (newPassword (formData s2))))))"

definition handleSubmit_resume :: "ChangePasswordPage \<Rightarrow> fetched \<Rightarrow> ChangePasswordPage" where
  "handleSubmit_resume s r =
     (case r of
        NetworkFailure \<Rightarrow> s\<lparr>message := msg_network_error, isLoading := False\<rparr>
      | Response status b \<Rightarrow>
          (case b of
             NotJson \<Rightarrow> s\<lparr>message := msg_network_error, isLoading := False\<rparr>
           | Json detail \<Rightarrow>
               if response_ok status
               then s\<lparr>message := msg_updated, formData := blank_form,
                       timers := timers s @ [''/home''], isLoading := False\<rparr>
               else if status = 400
               then s\<lparr>errors := [(''oldPassword'',
                                   if truthy detail then the detail else msg_update_failed)],
                       isLoading := False\<rparr>
               else s\<lparr>message := msg_update_failed, isLoading := False\<rparr>))"

definition handleSubmit :: "ChangePasswordPage \<Rightarrow> fetched \<Rightarrow> ChangePasswordPage" where
  "handleSubmit s r =
     (case handleSubmit_start s of
        (s', None) \<Rightarrow> s'
      | (s', Some q) \<Rightarrow> handleSubmit_resume s' r)"

text \<open>
  The component has no effect of its own and no early return: every render gives the
  form, inside which a \<open>Navbar\<close> with no \<open>currentUser\<close> is mounted.
\<close>

definition ChangePasswordPage_render :: "ChangePasswordPage \<Rightarrow> view" where
  "ChangePasswordPage_render s = PasswordFormView"

section \<open>Sample values\<close>

text \<open>The token pair and the user of the scenarios, used to run the definitions.\<close>

definition sample_session :: storage where
  "sample_session = [''access_token'' \<mapsto> ''A1'', ''refresh_token'' \<mapsto> ''R1'']"

definition sample_login_data :: login_data where
  "sample_login_data = \<lparr>data_access_token = Some ''A1'', data_refresh_token = Some ''R1''\<rparr>"

definition alice :: user where
  "alice = \<lparr>user_id = ''u1'', username = ''alice'', full_name = ''Alice'', is_admin = False,
             created_at = ''t0'', updated_at = ''t0''\<rparr>"

definition sample_form :: form_data where
  "sample_form = \<lparr>oldPassword = ''old-pw'', newPassword = ''new-pw'', confirmPassword = ''new-pw''\<rparr>"

definition short_form :: form_data where
  "short_form = \<lparr>oldPassword = ''old-pw'', newPassword = ''abc'', confirmPassword = ''abc''\<rparr>"

section \<open>Properties of the AuthProvider\<close>

lemmas storage_defs = getItem_def setItem_def removeItem_def truthy_def toString_def

lemma fetchUser_no_token:
  "\<not> truthy (getItem (localStorage s) ''access_token'') \<Longrightarrow> fetchUser s r = s\<lparr>loading := False\<rparr>"
  by (simp add: fetchUser_def fetchUser_start_def)

lemma fetchUser_token:
  "truthy (getItem (localStorage s) ''access_token'') \<Longrightarrow> fetchUser s r = fetchUser_resume s r"
  by (simp add: fetchUser_def fetchUser_start_def)

lemma fetchUser_resume_storage:
  "localStorage (fetchUser_resume s r) =
     (if r = Rejected (Some 401)
      then removeItem (removeItem (localStorage s) ''access_token'') ''refresh_token''
      else localStorage s)"
  by (cases r) (simp_all add: fetchUser_resume_def)

lemma fetchUser_resume_user:
  "user (fetchUser_resume s r) =
     (case r of Fulfilled u \<Rightarrow> Some u
      | Rejected st \<Rightarrow> if st = Some 401 then None else user s)"
  by (cases r) (simp_all add: fetchUser_resume_def)

lemma fetchUser_resume_loading: "\<not> loading (fetchUser_resume s r)"
  by (cases r) (simp_all add: fetchUser_resume_def)

lemma logout_resume_eq: "logout_resume s r = logout_finally s"
  by (cases r) (simp_all add: logout_resume_def)

lemma logout_eq: "logout s r = logout_finally s"
  by (simp add: logout_def logout_start_def logout_resume_eq Let_def)

lemma handleLogout_resume_eq: "handleLogout_resume s r = handleLogout_finally s"
  by (cases r) (simp_all add: handleLogout_resume_def)

lemma handleLogout_eq: "handleLogout s r = handleLogout_finally s"
  by (simp add: handleLogout_def handleLogout_start_def handleLogout_resume_eq Let_def)

lemma removed_tokens:
  "getItem (removeItem (removeItem ls ''access_token'') ''refresh_token'') ''access_token'' = None"
  "getItem (removeItem (removeItem ls ''access_token'') ''refresh_token'') ''refresh_token'' = None"
  by (simp_all add: getItem_def removeItem_def)

lemma removed_twice:
  "removeItem (removeItem (removeItem (removeItem ls ''access_token'') ''refresh_token'')
     ''access_token'') ''refresh_token''
   = removeItem (removeItem ls ''access_token'') ''refresh_token''"
  by (simp add: removeItem_def)

lemma newErrors_empty:
  "(newErrors f = []) =
     (oldPassword f \<noteq> [] \<and> 6 \<le> length (newPassword f)
      \<and> confirmPassword f = newPassword f \<and> newPassword f \<noteq> oldPassword f)"
  by (auto simp add: newErrors_def Let_def)

lemma validateForm_eq:
  "validateForm s = (s\<lparr>errors := newErrors (formData s)\<rparr>, newErrors (formData s) = [])"
  by (simp add: validateForm_def Let_def)

lemma fetchUserInfo_token:
  "truthy (getItem (localStorage s) ''access_token'')
   \<Longrightarrow> fetchUserInfo s r = fetchUserInfo_resume s r"
  by (simp add: fetchUserInfo_def fetchUserInfo_start_def)

subsection \<open>C1: what the authenticated flag reads\<close>

text \<open>
  C1, as stated, fails. Two runs of the start-up fetch over the same persisted token
  pair, one whose identity call fails without a response and one whose call succeeds,
  end with the same Session Store and with different values of \<open>isAuthenticated\<close>:
  the flag is not a function of Session presence.
\<close>

theorem C1_counterexample:
  "localStorage (fetchUser (AuthProvider_init sample_session) (Rejected None)) = sample_session
   \<and> \<not> isAuthenticated (fetchUser (AuthProvider_init sample_session) (Rejected None))
   \<and> localStorage (fetchUser (AuthProvider_init sample_session) (Fulfilled alice)) = sample_session
   \<and> isAuthenticated (fetchUser (AuthProvider_init sample_session) (Fulfilled alice))"
  by (simp add: fetchUser_def fetchUser_start_def fetchUser_resume_def AuthProvider_init_def
      sample_session_def isAuthenticated_def storage_defs)

text \<open>
  C1 (amended): the authenticated flag exposed to consumers is a function of the Identity
  Cache alone. It does not change when the Session Store is replaced by any other
  content, it is true whenever the cache holds a User and false whenever the cache is
  empty.
\<close>

theorem C1_isAuthenticated_reads_cache:
  "isAuthenticated (s\<lparr>localStorage := ls\<rparr>) = isAuthenticated s
   \<and> isAuthenticated (s\<lparr>user := Some u\<rparr>)
   \<and> \<not> isAuthenticated (s\<lparr>user := None\<rparr>)"
  by (simp add: isAuthenticated_def)

subsection \<open>C3: the start-up fetch\<close>

text \<open>
  C3, as stated, fails. With the token pair persisted, the start-up fetch issues the
  identity call and the state is not authenticated while the call is pending; and when
  the call fails with status 500 the pair stays in the store and the state is still not
  authenticated.
\<close>

theorem C3_counterexample:
  "snd (fetchUser_start (AuthProvider_init sample_session)) = Some (GET_me ''A1'')
   \<and> \<not> isAuthenticated (fst (fetchUser_start (AuthProvider_init sample_session)))
   \<and> localStorage (fetchUser (AuthProvider_init sample_session) (Rejected (Some 500)))
       = sample_session
   \<and> \<not> isAuthenticated (fetchUser (AuthProvider_init sample_session) (Rejected (Some 500)))"
  by (simp add: fetchUser_def fetchUser_start_def fetchUser_resume_def AuthProvider_init_def
      sample_session_def isAuthenticated_def storage_defs)

text \<open>
  C3 (amended): at start-up, with no truthy access token persisted, the fetch returns
  without a network call, the state is not authenticated, loading is over and the store
  is untouched. With a truthy access token persisted, the identity call is issued with
  that token and, while it is pending, the state is loading and not authenticated; once
  the call has settled, loading is over, the state is authenticated exactly when the call
  succeeded, and the Session Store has lost both tokens when the call was rejected with
  status 401 and is unchanged otherwise.
\<close>

theorem C3_bootstrap:
  "(\<not> truthy (getItem ls ''access_token'') \<longrightarrow>
      fetchUser_start (AuthProvider_init ls) = ((AuthProvider_init ls)\<lparr>loading := False\<rparr>, None)
      \<and> fetchUser (AuthProvider_init ls) r = (AuthProvider_init ls)\<lparr>loading := False\<rparr>
      \<and> \<not> isAuthenticated (fetchUser (AuthProvider_init ls) r)
      \<and> localStorage (fetchUser (AuthProvider_init ls) r) = ls)
   \<and> (truthy (getItem ls ''access_token'') \<longrightarrow>
      fetchUser_start (AuthProvider_init ls)
        = (AuthProvider_init ls, Some (GET_me (the (getItem ls ''access_token''))))
      \<and> \<not> isAuthenticated (AuthProvider_init ls)
      \<and> loading (AuthProvider_init ls)
      \<and> isAuthenticated (fetchUser (AuthProvider_init ls) r) = (\<exists>u. r = Fulfilled u)
      \<and> \<not> loading (fetchUser (AuthProvider_init ls) r)
      \<and> localStorage (fetchUser (AuthProvider_init ls) r)
          = (if r = Rejected (Some 401)
             then removeItem (removeItem ls ''access_token'') ''refresh_token''
             else ls))"
proof (intro conjI impI)
  assume n: "\<not> truthy (getItem ls ''access_token'')"
  then show "fetchUser_start (AuthProvider_init ls)
               = ((AuthProvider_init ls)\<lparr>loading := False\<rparr>, None)"
    by (simp add: fetchUser_start_def AuthProvider_init_def)
  from n show a: "fetchUser (AuthProvider_init ls) r = (AuthProvider_init ls)\<lparr>loading := False\<rparr>"
    by (simp add: fetchUser_no_token AuthProvider_init_def)
  show "\<not> isAuthenticated (fetchUser (AuthProvider_init ls) r)"
    using a by (simp add: isAuthenticated_def AuthProvider_init_def)
  show "localStorage (fetchUser (AuthProvider_init ls) r) = ls"
    using a by (simp add: AuthProvider_init_def)
next
  assume t: "truthy (getItem ls ''access_token'')"
  then show "fetchUser_start (AuthProvider_init ls)
        = (AuthProvider_init ls, Some (GET_me (the (getItem ls ''access_token''))))"
    by (simp add: fetchUser_start_def AuthProvider_init_def)
  show "\<not> isAuthenticated (AuthProvider_init ls)"
    by (simp add: isAuthenticated_def AuthProvider_init_def)
  show "loading (AuthProvider_init ls)"
    by (simp add: AuthProvider_init_def)
  from t have f: "fetchUser (AuthProvider_init ls) r = fetchUser_resume (AuthProvider_init ls) r"
    by (simp add: fetchUser_token AuthProvider_init_def)
  show "isAuthenticated (fetchUser (AuthProvider_init ls) r) = (\<exists>u. r = Fulfilled u)"
    unfolding f
    by (cases r) (simp_all add: isAuthenticated_def fetchUser_resume_user AuthProvider_init_def)
  show "\<not> loading (fetchUser (AuthProvider_init ls) r)"
    unfolding f by (simp add: fetchUser_resume_loading)
  show "localStorage (fetchUser (AuthProvider_init ls) r)
          = (if r = Rejected (Some 401)
             then removeItem (removeItem ls ''access_token'') ''refresh_token''
             else ls)"
    unfolding f by (simp add: fetchUser_resume_storage AuthProvider_init_def)
qed

text \<open>
  The amended C3 at an empty store and at the sample token pair, with the identity call
  succeeding, rejected with 401 and failing without a response.
\<close>

theorem C3_bootstrap_witness:
  "fetchUser_start (AuthProvider_init Map.empty)
     = ((AuthProvider_init Map.empty)\<lparr>loading := False\<rparr>, None)
   \<and> \<not> isAuthenticated (fetchUser (AuthProvider_init Map.empty) (Fulfilled alice))
   \<and> fetchUser_start (AuthProvider_init sample_session)
       = (AuthProvider_init sample_session, Some (GET_me ''A1''))
   \<and> isAuthenticated (fetchUser (AuthProvider_init sample_session) (Fulfilled alice))
   \<and> getItem (localStorage (fetchUser (AuthProvider_init sample_session) (Rejected (Some 401))))
        ''access_token'' = None
   \<and> localStorage (fetchUser (AuthProvider_init sample_session) (Rejected None))
       = sample_session"
  using C3_bootstrap [of Map.empty "Fulfilled alice"]
    C3_bootstrap [of sample_session "Fulfilled alice"]
    C3_bootstrap [of sample_session "Rejected (Some 401)"]
    C3_bootstrap [of sample_session "Rejected None"]
  by (simp add: sample_session_def storage_defs isAuthenticated_def AuthProvider_init_def)

subsection \<open>C4: login and the identity fetch that follows it\<close>

text \<open>
  C4, as stated, fails. A login whose credential exchange succeeds and whose identity
  fetch is then rejected with status 401 returns true with both tokens gone from the
  store: the 401 branch of \<open>fetchUser\<close> removes the pair that \<open>login\<close> has just
  stored.
\<close>

theorem C4_counterexample:
  "fst (login (AuthProvider_init Map.empty) ''alice'' ''pw'' (Fulfilled sample_login_data)
          (Rejected (Some 401))) = Inr True
   \<and> getItem (localStorage (snd (login (AuthProvider_init Map.empty) ''alice'' ''pw''
          (Fulfilled sample_login_data) (Rejected (Some 401))))) ''access_token'' = None
   \<and> getItem (localStorage (snd (login (AuthProvider_init Map.empty) ''alice'' ''pw''
          (Fulfilled sample_login_data) (Rejected (Some 401))))) ''refresh_token'' = None"
  by (simp add: login_def fetchUser_def fetchUser_start_def fetchUser_resume_def
      AuthProvider_init_def sample_login_data_def storage_defs)

text \<open>
  C4 (amended): when the credential exchange succeeds with a truthy access token,
  \<open>login\<close> returns true and, after the identity fetch has completed, the Session
  Store holds the returned pair on top of what it held before, for every outcome of the
  fetch other than a rejection with status 401; on a rejection with status 401 the
  store has lost both tokens.
\<close>

theorem C4_login_refresh:
  assumes "truthy (data_access_token d)"
  shows "fst (login s name password (Fulfilled d) me) = Inr True
    \<and> localStorage (snd (login s name password (Fulfilled d) me))
        = (if me = Rejected (Some 401)
           then removeItem (removeItem (localStorage s) ''access_token'') ''refresh_token''
           else setItem (setItem (localStorage s) ''access_token''
                           (toString (data_access_token d)))
                  ''refresh_token'' (toString (data_refresh_token d)))"
proof -
  let ?ls = "setItem (setItem (localStorage s) ''access_token''
                           (toString (data_access_token d)))
                  ''refresh_token'' (toString (data_refresh_token d))"
  from assms have t: "truthy (getItem (localStorage (s\<lparr>localStorage := ?ls\<rparr>)) ''access_token'')"
    by (cases "data_access_token d") (simp_all add: storage_defs)
  have l: "login s name password (Fulfilled d) me
             = (Inr True, fetchUser_resume (s\<lparr>localStorage := ?ls\<rparr>) me)"
    using assms fetchUser_token [OF t] by (simp add: login_def Let_def)
  have r: "removeItem (removeItem ?ls ''access_token'') ''refresh_token''
             = removeItem (removeItem (localStorage s) ''access_token'') ''refresh_token''"
    by (simp add: setItem_def removeItem_def)
  show ?thesis
    unfolding l using r by (simp add: fetchUser_resume_storage)
qed

text \<open>
  The amended C4 at the sample token pair, with the identity fetch failing with
  status 500.
\<close>

theorem C4_login_refresh_witness:
  "truthy (data_access_token sample_login_data)
   \<and> fst (login (AuthProvider_init Map.empty) ''alice'' ''pw'' (Fulfilled sample_login_data)
            (Rejected (Some 500))) = Inr True
   \<and> localStorage (snd (login (AuthProvider_init Map.empty) ''alice'' ''pw''
            (Fulfilled sample_login_data) (Rejected (Some 500)))) = sample_session"
proof -
  have h: "truthy (data_access_token sample_login_data)"
    by (simp add: sample_login_data_def truthy_def)
  have e: "setItem (setItem Map.empty ''access_token'' ''A1'') ''refresh_token'' ''R1''
             = sample_session"
    by (simp add: sample_session_def setItem_def)
  show ?thesis
    using h e C4_login_refresh [OF h, of "AuthProvider_init Map.empty" "''alice''" "''pw''"
        "Rejected (Some 500)"]
    by (simp add: sample_login_data_def AuthProvider_init_def toString_def)
qed

subsection \<open>C9: a failed login\<close>

text \<open>
  C9, as stated, fails on a malformed response. Over the stored pair A1, R1, a post
  answered with an access token A2 and no refresh token makes \<open>login\<close> return true
  and makes both \<open>login\<close> and \<open>handleSubmit\<close> of the login page overwrite the
  stored pair: the access token becomes A2 and the refresh token becomes the text
  \<open>undefined\<close>.
\<close>

theorem C9_counterexample:
  "getItem sample_session ''access_token'' = Some ''A1''
   \<and> getItem sample_session ''refresh_token'' = Some ''R1''
   \<and> fst (login (AuthProvider_init sample_session) ''alice'' ''pw''
          (Fulfilled \<lparr>data_access_token = Some ''A2'', data_refresh_token = None\<rparr>)
          (Rejected None)) = Inr True
   \<and> getItem (localStorage (snd (login (AuthProvider_init sample_session) ''alice'' ''pw''
          (Fulfilled \<lparr>data_access_token = Some ''A2'', data_refresh_token = None\<rparr>)
          (Rejected None)))) ''access_token'' = Some ''A2''
   \<and> getItem (localStorage (snd (login (AuthProvider_init sample_session) ''alice'' ''pw''
          (Fulfilled \<lparr>data_access_token = Some ''A2'', data_refresh_token = None\<rparr>)
          (Rejected None)))) ''refresh_token'' = Some ''undefined''
   \<and> getItem (localStorage (Login_handleSubmit
          \<lparr>localStorage = sample_session, pushed = [], lg_error = [], lg_loading = False\<rparr>
          ''alice'' ''pw''
          (Fulfilled \<lparr>data_access_token = Some ''A2'', data_refresh_token = None\<rparr>)))
        ''access_token'' = Some ''A2''
   \<and> getItem (localStorage (Login_handleSubmit
          \<lparr>localStorage = sample_session, pushed = [], lg_error = [], lg_loading = False\<rparr>
          ''alice'' ''pw''
          (Fulfilled \<lparr>data_access_token = Some ''A2'', data_refresh_token = None\<rparr>)))
        ''refresh_token'' = Some ''undefined''"
  by (simp add: login_def Login_handleSubmit_def fetchUser_def fetchUser_start_def
      fetchUser_resume_def AuthProvider_init_def sample_session_def storage_defs Let_def)

text \<open>
  C9 (amended): when the post of the credential exchange is rejected, with or without a
  response, or its response carries no truthy access token, \<open>login\<close> does not
  return true and leaves the whole state of the provider as it was, the stored tokens
  included; and \<open>handleSubmit\<close> of the login page leaves the stored tokens as they
  were and pushes no route.
\<close>

theorem C9_failed_login:
  assumes "case r of Fulfilled d \<Rightarrow> \<not> truthy (data_access_token d) | Rejected st \<Rightarrow> True"
  shows "fst (login s name password r me) \<noteq> Inr True
    \<and> snd (login s name password r me) = s
    \<and> localStorage (Login_handleSubmit l name password r) = localStorage l
    \<and> pushed (Login_handleSubmit l name password r) = pushed l"
  using assms by (cases r) (simp_all add: login_def Login_handleSubmit_def)

text \<open>
  The amended C9 at a provider that holds the sample token pair: a post rejected with
  status 401, and a response without an access token.
\<close>

theorem C9_failed_login_witness:
  "fst (login (AuthProvider_init sample_session) ''alice'' ''bad'' (Rejected (Some 401))
          (Fulfilled alice)) = Inl (AxiosError (Some 401))
   \<and> localStorage (snd (login (AuthProvider_init sample_session) ''alice'' ''bad''
          (Rejected (Some 401)) (Fulfilled alice))) = sample_session
   \<and> snd (login (AuthProvider_init sample_session) ''alice'' ''bad''
          (Fulfilled \<lparr>data_access_token = None, data_refresh_token = Some ''R2''\<rparr>)
          (Fulfilled alice)) = AuthProvider_init sample_session"
  using C9_failed_login [of "Rejected (Some 401)" "AuthProvider_init sample_session"
      "''alice''" "''bad''" "Fulfilled alice"]
    C9_failed_login [of "Fulfilled \<lparr>data_access_token = None, data_refresh_token = Some ''R2''\<rparr>"
      "AuthProvider_init sample_session" "''alice''" "''bad''" "Fulfilled alice"]
  by (simp add: login_def AuthProvider_init_def truthy_def)

subsection \<open>C6, C7: logout\<close>

text \<open>
  C6: after a login with any outcome, followed by a logout that has completed, both
  tokens are absent from the Session Store and the cached user is gone, whatever the
  outcome of the revoke call; the same holds for \<open>handleLogout\<close> of a page run over
  the store that \<open>handleSubmit\<close> of the login page has left.
\<close>

theorem C6_logout_clears:
  "getItem (localStorage (logout (snd (login s name password r me)) rv)) ''access_token'' = None
   \<and> getItem (localStorage (logout (snd (login s name password r me)) rv)) ''refresh_token''
       = None
   \<and> user (logout (snd (login s name password r me)) rv) = None
   \<and> getItem (localStorage (handleLogout
        (h\<lparr>localStorage := localStorage (Login_handleSubmit l name password r)\<rparr>) rv))
        ''access_token'' = None
   \<and> getItem (localStorage (handleLogout
        (h\<lparr>localStorage := localStorage (Login_handleSubmit l name password r)\<rparr>) rv))
        ''refresh_token'' = None"
  by (simp add: logout_eq logout_finally_def handleLogout_eq handleLogout_finally_def
      removed_tokens)

text \<open>
  C7, as stated, fails. Called with the sample token pair stored, \<open>logout\<close> (and
  \<open>handleLogout\<close> of a page) issues the revoke call and both tokens are still in the
  store while that call is pending.
\<close>

theorem C7_counterexample:
  "logout_start (AuthProvider_init sample_session)
     = (AuthProvider_init sample_session, Some (POST_logout ''A1'' (Some ''R1'')))
   \<and> getItem (localStorage (fst (logout_start (AuthProvider_init sample_session))))
        ''access_token'' = Some ''A1''
   \<and> getItem (localStorage (fst (logout_start (AuthProvider_init sample_session))))
        ''refresh_token'' = Some ''R1''
   \<and> getItem (localStorage (fst (handleLogout_start (HomePage_init sample_session))))
        ''access_token'' = Some ''A1''"
  by (simp add: logout_start_def handleLogout_start_def AuthProvider_init_def HomePage_init_def
      sample_session_def storage_defs Let_def)

text \<open>
  C7 (amended): with a truthy access token stored, \<open>logout\<close> and \<open>handleLogout\<close>
  issue the revoke call and leave the state as it is while the call is pending; with
  none stored they issue no call and clear at once. When the revoke call settles, the
  rest of the function does the same whatever the outcome: both tokens are removed, and
  the cached user is dropped (\<open>logout\<close>) or the login route is pushed
  (\<open>handleLogout\<close>).
\<close>

theorem C7_logout_waits:
  "(truthy (getItem (localStorage s) ''access_token'') \<longrightarrow>
      logout_start s = (s, Some (POST_logout (the (getItem (localStorage s) ''access_token''))
                                  (getItem (localStorage s) ''refresh_token''))))
   \<and> (\<not> truthy (getItem (localStorage s) ''access_token'') \<longrightarrow>
      logout_start s = (logout_finally s, None))
   \<and> (truthy (getItem (localStorage h) ''access_token'') \<longrightarrow>
      handleLogout_start h
        = (h, Some (POST_logout (the (getItem (localStorage h) ''access_token''))
                      (getItem (localStorage h) ''refresh_token''))))
   \<and> (\<not> truthy (getItem (localStorage h) ''access_token'') \<longrightarrow>
      handleLogout_start h = (handleLogout_finally h, None))
   \<and> logout_resume s rv = logout_finally s
   \<and> handleLogout_resume h rv = handleLogout_finally h
   \<and> getItem (localStorage (logout_finally s)) ''access_token'' = None
   \<and> getItem (localStorage (logout_finally s)) ''refresh_token'' = None
   \<and> user (logout_finally s) = None
   \<and> getItem (localStorage (handleLogout_finally h)) ''access_token'' = None
   \<and> getItem (localStorage (handleLogout_finally h)) ''refresh_token'' = None
   \<and> pushed (handleLogout_finally h) = pushed h @ [''/login'']"
  by (simp add: logout_start_def handleLogout_start_def logout_resume_eq handleLogout_resume_eq
      logout_finally_def handleLogout_finally_def removed_tokens Let_def)

text \<open>
  The amended C7 at the sample token pair and at an empty store.
\<close>

theorem C7_logout_waits_witness:
  "logout_start (AuthProvider_init sample_session)
     = (AuthProvider_init sample_session, Some (POST_logout ''A1'' (Some ''R1'')))
   \<and> getItem (localStorage (logout_resume (AuthProvider_init sample_session) (Rejected None)))
        ''access_token'' = None
   \<and> logout_start (AuthProvider_init Map.empty) = (logout_finally (AuthProvider_init Map.empty), None)
   \<and> handleLogout_start (HomePage_init sample_session)
       = (HomePage_init sample_session, Some (POST_logout ''A1'' (Some ''R1'')))
   \<and> handleLogout_start (HomePage_init Map.empty)
       = (handleLogout_finally (HomePage_init Map.empty), None)"
  using C7_logout_waits [of "AuthProvider_init sample_session" "HomePage_init sample_session"
      "Rejected None"]
    C7_logout_waits [of "AuthProvider_init Map.empty" "HomePage_init Map.empty" "Rejected None"]
  by (simp add: AuthProvider_init_def HomePage_init_def sample_session_def storage_defs)

subsection \<open>C8: an identity response that arrives after logout\<close>

text \<open>
  C8, as stated, fails. The start-up fetch is pending, a logout then runs to its end
  and empties the cache, and the identity response that arrives afterwards puts its
  user into the cache.
\<close>

theorem C8_counterexample:
  "snd (fetchUser_start (AuthProvider_init sample_session)) = Some (GET_me ''A1'')
   \<and> user (fetchUser_resume
        (logout (fst (fetchUser_start (AuthProvider_init sample_session))) (Fulfilled ()))
        (Fulfilled alice)) = Some alice
   \<and> user (logout (fst (fetchUser_start (AuthProvider_init sample_session))) (Fulfilled ()))
       = None"
  by (simp add: fetchUser_start_def fetchUser_resume_def logout_eq logout_finally_def
      AuthProvider_init_def sample_session_def storage_defs)

text \<open>
  C8 (amended): when the rest of \<open>fetchUser\<close> runs on the state a completed logout
  has left, both tokens are still absent from the Session Store whatever the identity
  call returned, and the cache is still empty when that call was rejected.
\<close>

theorem C8_stale_refresh:
  "getItem (localStorage (fetchUser_resume (logout s rv) r)) ''access_token'' = None
   \<and> getItem (localStorage (fetchUser_resume (logout s rv) r)) ''refresh_token'' = None
   \<and> user (fetchUser_resume (logout s rv) (Rejected st)) = None"
  by (simp add: fetchUser_resume_storage fetchUser_resume_user logout_eq logout_finally_def
      removed_tokens removed_twice)

section \<open>Properties of the pages\<close>

subsection \<open>C2: a 401 answer at each call site\<close>

text \<open>
  C2: two call sites do not turn a 401 answer into the invalidation of the session.
  A \<open>Navbar\<close> mounted without a current user over the
  sample token pair, whose identity call is rejected with status 401, is left exactly as
  it was: both tokens stay stored and no route is pushed. A valid password-change
  submission that is answered with status 401 keeps both tokens, pushes no route and
  shows the update-failed message.
\<close>

theorem C2_unabsorbed_401:
  "Navbar_useEffect None (Navbar_init None sample_session) (Rejected (Some 401))
     = Navbar_init None sample_session
   \<and> getItem (localStorage (Navbar_init None sample_session)) ''access_token'' = Some ''A1''
   \<and> getItem (localStorage (Navbar_init None sample_session)) ''refresh_token'' = Some ''R1''
   \<and> pushed (Navbar_init None sample_session) = []
   \<and> localStorage (handleSubmit ((ChangePasswordPage_init sample_session)
        \<lparr>formData := sample_form\<rparr>) (Response 401 (Json None))) = sample_session
   \<and> pushed (handleSubmit ((ChangePasswordPage_init sample_session)
        \<lparr>formData := sample_form\<rparr>) (Response 401 (Json None))) = []
   \<and> message (handleSubmit ((ChangePasswordPage_init sample_session)
        \<lparr>formData := sample_form\<rparr>) (Response 401 (Json None))) = msg_update_failed"
  by (simp add: Navbar_useEffect_def Navbar_fetchUserInfo_def Navbar_fetchUserInfo_start_def
      Navbar_fetchUserInfo_resume_def Navbar_init_def sample_session_def storage_defs
      handleSubmit_def handleSubmit_start_def handleSubmit_resume_def validateForm_def
      newErrors_def Let_def ChangePasswordPage_init_def sample_form_def response_ok_def)

subsection \<open>C5: where the views guard\<close>

text \<open>
  C5, as stated, fails. Mounted over an empty store, the password-change view gives
  its form, and neither the view nor the \<open>Navbar\<close> inside it pushes a route.
\<close>

theorem C5_counterexample:
  "ChangePasswordPage_render (ChangePasswordPage_init Map.empty) = PasswordFormView
   \<and> pushed (ChangePasswordPage_init Map.empty) = []
   \<and> Navbar_useEffect None (Navbar_init None Map.empty) (Fulfilled alice)
       = Navbar_init None Map.empty
   \<and> pushed (Navbar_init None Map.empty) = []"
  by (simp add: ChangePasswordPage_render_def ChangePasswordPage_init_def Navbar_useEffect_def
      Navbar_fetchUserInfo_def Navbar_fetchUserInfo_start_def Navbar_init_def storage_defs)

text \<open>
  C5 (amended): the dashboard guards when it mounts. With no truthy access token stored
  it pushes the login route without a network call. With one stored it issues the
  identity call and shows the loading view; when the call succeeds it shows the
  dashboard with the fetched user and pushes nothing; when the call is rejected with
  status 401 it removes both tokens and pushes the login route; on any other failure it
  shows the error view. The password-change view guards at submission: a submission
  that passes validation with no truthy access token stored pushes the login route
  and sends no request.
\<close>

theorem C5_guards:
  "(\<not> truthy (getItem ls ''access_token'') \<longrightarrow>
      fetchUserInfo_start (HomePage_init ls)
        = ((HomePage_init ls)\<lparr>pushed := [''/login''], hp_loading := False\<rparr>, None))
   \<and> (truthy (getItem ls ''access_token'') \<longrightarrow>
      fetchUserInfo_start (HomePage_init ls)
        = (HomePage_init ls, Some (GET_me (the (getItem ls ''access_token''))))
      \<and> HomePage_render (HomePage_init ls) = LoadingView
      \<and> pushed (HomePage_init ls) = []
      \<and> HomePage_render (fetchUserInfo (HomePage_init ls) (Fulfilled u)) = DashboardView (Some u)
      \<and> pushed (fetchUserInfo (HomePage_init ls) (Fulfilled u)) = []
      \<and> pushed (fetchUserInfo (HomePage_init ls) (Rejected (Some 401))) = [''/login'']
      \<and> localStorage (fetchUserInfo (HomePage_init ls) (Rejected (Some 401)))
          = removeItem (removeItem ls ''access_token'') ''refresh_token''
      \<and> (st \<noteq> Some 401 \<longrightarrow>
          HomePage_render (fetchUserInfo (HomePage_init ls) (Rejected st))
            = ErrorView msg_fetch_failed
          \<and> pushed (fetchUserInfo (HomePage_init ls) (Rejected st)) = []))
   \<and> (newErrors (formData c) = [] \<and> \<not> truthy (getItem (localStorage c) ''access_token'') \<longrightarrow>
      snd (handleSubmit_start c) = None
      \<and> pushed (fst (handleSubmit_start c)) = pushed c @ [''/login'']
      \<and> localStorage (fst (handleSubmit_start c)) = localStorage c)"
proof (intro conjI impI)
  assume "\<not> truthy (getItem ls ''access_token'')"
  then show "fetchUserInfo_start (HomePage_init ls)
        = ((HomePage_init ls)\<lparr>pushed := [''/login''], hp_loading := False\<rparr>, None)"
    by (simp add: fetchUserInfo_start_def HomePage_init_def)
next
  assume t: "truthy (getItem ls ''access_token'')"
  then show "fetchUserInfo_start (HomePage_init ls)
        = (HomePage_init ls, Some (GET_me (the (getItem ls ''access_token''))))"
    by (simp add: fetchUserInfo_start_def HomePage_init_def)
  show "HomePage_render (HomePage_init ls) = LoadingView"
    by (simp add: HomePage_render_def HomePage_init_def)
  show "pushed (HomePage_init ls) = []"
    by (simp add: HomePage_init_def)
  from t have f: "\<And>r. fetchUserInfo (HomePage_init ls) r = fetchUserInfo_resume (HomePage_init ls) r"
    by (simp add: fetchUserInfo_token HomePage_init_def)
  show "HomePage_render (fetchUserInfo (HomePage_init ls) (Fulfilled u)) = DashboardView (Some u)"
    unfolding f by (simp add: fetchUserInfo_resume_def HomePage_render_def HomePage_init_def)
  show "pushed (fetchUserInfo (HomePage_init ls) (Fulfilled u)) = []"
    unfolding f by (simp add: fetchUserInfo_resume_def HomePage_init_def)
  show "pushed (fetchUserInfo (HomePage_init ls) (Rejected (Some 401))) = [''/login'']"
    unfolding f by (simp add: fetchUserInfo_resume_def HomePage_init_def)
  show "localStorage (fetchUserInfo (HomePage_init ls) (Rejected (Some 401)))
          = removeItem (removeItem ls ''access_token'') ''refresh_token''"
    unfolding f by (simp add: fetchUserInfo_resume_def HomePage_init_def)
  {
    assume n: "st \<noteq> Some 401"
    then show "HomePage_render (fetchUserInfo (HomePage_init ls) (Rejected st))
            = ErrorView msg_fetch_failed"
      unfolding f
      by (simp add: fetchUserInfo_resume_def HomePage_render_def HomePage_init_def
          msg_fetch_failed_def)
    from n show "pushed (fetchUserInfo (HomePage_init ls) (Rejected st)) = []"
      unfolding f by (simp add: fetchUserInfo_resume_def HomePage_init_def)
  }
next
  assume a: "newErrors (formData c) = [] \<and> \<not> truthy (getItem (localStorage c) ''access_token'')"
  then have e: "handleSubmit_start c
      = (c\<lparr>errors := [], isLoading := False, message := [],
           pushed := pushed c @ [''/login'']\<rparr>, None)"
    by (simp add: handleSubmit_start_def validateForm_eq Let_def)
  show "snd (handleSubmit_start c) = None"
    unfolding e by simp
  show "pushed (fst (handleSubmit_start c)) = pushed c @ [''/login'']"
    unfolding e by simp
  show "localStorage (fst (handleSubmit_start c)) = localStorage c"
    unfolding e by simp
qed

text \<open>
  The amended C5 at an empty store and at the sample token pair.
\<close>

theorem C5_guards_witness:
  "fetchUserInfo_start (HomePage_init Map.empty)
     = ((HomePage_init Map.empty)\<lparr>pushed := [''/login''], hp_loading := False\<rparr>, None)
   \<and> HomePage_render (fetchUserInfo (HomePage_init sample_session) (Fulfilled alice))
       = DashboardView (Some alice)
   \<and> pushed (fetchUserInfo (HomePage_init sample_session) (Rejected (Some 401))) = [''/login'']
   \<and> HomePage_render (fetchUserInfo (HomePage_init sample_session) (Rejected (Some 500)))
       = ErrorView msg_fetch_failed
   \<and> pushed (fst (handleSubmit_start
        ((ChangePasswordPage_init Map.empty)\<lparr>formData := sample_form\<rparr>))) = [''/login'']
   \<and> snd (handleSubmit_start
        ((ChangePasswordPage_init Map.empty)\<lparr>formData := sample_form\<rparr>)) = None"
proof -
  have v: "newErrors (formData ((ChangePasswordPage_init Map.empty)\<lparr>formData := sample_form\<rparr>))
             = []"
    by (simp add: newErrors_def sample_form_def Let_def)
  have t: "truthy (getItem sample_session ''access_token'')"
    by (simp add: sample_session_def storage_defs)
  have n: "\<not> truthy (getItem Map.empty ''access_token'')"
    by (simp add: storage_defs)
  have n': "\<not> truthy (getItem (localStorage
              ((ChangePasswordPage_init Map.empty)\<lparr>formData := sample_form\<rparr>)) ''access_token'')"
    by (simp add: storage_defs ChangePasswordPage_init_def)
  have p: "pushed ((ChangePasswordPage_init Map.empty)\<lparr>formData := sample_form\<rparr>) = []"
    by (simp add: ChangePasswordPage_init_def)
  show ?thesis
    using v t n n' p
      C5_guards [of Map.empty alice "Some 500"
        "(ChangePasswordPage_init Map.empty)\<lparr>formData := sample_form\<rparr>"]
      C5_guards [of sample_session alice "Some 500"
        "(ChangePasswordPage_init Map.empty)\<lparr>formData := sample_form\<rparr>"]
    by simp
qed

subsection \<open>C10: validation before any effect\<close>

text \<open>
  C10: when the old password is empty, or the new password is shorter than 6, or the
  confirmation differs from the new password, or the new password equals the old one,
  \<open>handleSubmit\<close> issues no request and only stores the validation errors: the
  Session Store, the pushed routes and the timers are as before. And when the request
  \<open>PUT /auth/password\<close> is issued, all four conditions pass, a truthy access token
  is stored, and the request carries that token with the old and the new password.
\<close>

theorem C10_validation_first:
  "((oldPassword (formData s) = [] \<or> length (newPassword (formData s)) < 6
      \<or> confirmPassword (formData s) \<noteq> newPassword (formData s)
      \<or> newPassword (formData s) = oldPassword (formData s)) \<longrightarrow>
       handleSubmit_start s = (s\<lparr>errors := newErrors (formData s)\<rparr>, None)
       \<and> handleSubmit s r = s\<lparr>errors := newErrors (formData s)\<rparr>
       \<and> localStorage (handleSubmit s r) = localStorage s
       \<and> pushed (handleSubmit s r) = pushed s
       \<and> timers (handleSubmit s r) = timers s)
   \<and> (snd (handleSubmit_start s) \<noteq> None \<longrightarrow>
       oldPassword (formData s) \<noteq> [] \<and> 6 \<le> length (newPassword (formData s))
       \<and> confirmPassword (formData s) = newPassword (formData s)
       \<and> newPassword (formData s) \<noteq> oldPassword (formData s)
       \<and> truthy (getItem (localStorage s) ''access_token'')
       \<and> snd (handleSubmit_start s)
           = Some (PUT_password (the (getItem (localStorage s) ''access_token''))
                     (oldPassword (formData s)) (newPassword (formData s))))"
proof (intro conjI impI)
  assume bad: "oldPassword (formData s) = [] \<or> length (newPassword (formData s)) < 6
      \<or> confirmPassword (formData s) \<noteq> newPassword (formData s)
      \<or> newPassword (formData s) = oldPassword (formData s)"
  then have ne: "newErrors (formData s) \<noteq> []"
    by (auto simp add: newErrors_empty)
  then show st: "handleSubmit_start s = (s\<lparr>errors := newErrors (formData s)\<rparr>, None)"
    by (simp add: handleSubmit_start_def validateForm_eq)
  then show hs: "handleSubmit s r = s\<lparr>errors := newErrors (formData s)\<rparr>"
    by (simp add: handleSubmit_def)
  show "localStorage (handleSubmit s r) = localStorage s"
    unfolding hs by simp
  show "pushed (handleSubmit s r) = pushed s"
    unfolding hs by simp
  show "timers (handleSubmit s r) = timers s"
    unfolding hs by simp
next
  assume sent: "snd (handleSubmit_start s) \<noteq> None"
  have v: "newErrors (formData s) = []"
  proof (rule ccontr)
    assume "newErrors (formData s) \<noteq> []"
    then have "snd (handleSubmit_start s) = None"
      by (simp add: handleSubmit_start_def validateForm_eq)
    with sent show False by simp
  qed
  then show "oldPassword (formData s) \<noteq> []" "6 \<le> length (newPassword (formData s))"
    "confirmPassword (formData s) = newPassword (formData s)"
    "newPassword (formData s) \<noteq> oldPassword (formData s)"
    by (simp_all add: newErrors_empty)
  show t: "truthy (getItem (localStorage s) ''access_token'')"
  proof (rule ccontr)
    assume "\<not> truthy (getItem (localStorage s) ''access_token'')"
    with v have "snd (handleSubmit_start s) = None"
      by (simp add: handleSubmit_start_def validateForm_eq Let_def)
    with sent show False by simp
  qed
  with v show "snd (handleSubmit_start s)
           = Some (PUT_password (the (getItem (localStorage s) ''access_token''))
                     (oldPassword (formData s)) (newPassword (formData s)))"
    by (simp add: handleSubmit_start_def validateForm_eq Let_def)
qed

text \<open>
  C10 at a form whose new password has three characters and at a valid form, over
  the sample token pair.
\<close>

theorem C10_validation_first_witness:
  "length (newPassword (formData ((ChangePasswordPage_init sample_session)
        \<lparr>formData := short_form\<rparr>))) < 6
   \<and> snd (handleSubmit_start ((ChangePasswordPage_init sample_session)
        \<lparr>formData := short_form\<rparr>)) = None
   \<and> localStorage (handleSubmit ((ChangePasswordPage_init sample_session)
        \<lparr>formData := short_form\<rparr>) (Response 200 (Json None))) = sample_session
   \<and> pushed (handleSubmit ((ChangePasswordPage_init sample_session)
        \<lparr>formData := short_form\<rparr>) (Response 200 (Json None))) = []
   \<and> snd (handleSubmit_start ((ChangePasswordPage_init sample_session)
        \<lparr>formData := sample_form\<rparr>)) = Some (PUT_password ''A1'' ''old-pw'' ''new-pw'')
   \<and> 6 \<le> length (newPassword sample_form)"
proof -
  have a: "snd (handleSubmit_start ((ChangePasswordPage_init sample_session)
        \<lparr>formData := sample_form\<rparr>)) \<noteq> None"
    by (simp add: handleSubmit_start_def validateForm_def newErrors_def Let_def
        ChangePasswordPage_init_def sample_form_def sample_session_def storage_defs)
  show ?thesis
    using a
      C10_validation_first [of "(ChangePasswordPage_init sample_session)\<lparr>formData := short_form\<rparr>"
        "Response 200 (Json None)"]
      C10_validation_first [of "(ChangePasswordPage_init sample_session)\<lparr>formData := sample_form\<rparr>"
        "Response 200 (Json None)"]
    by (simp add: ChangePasswordPage_init_def sample_form_def short_form_def sample_session_def
        storage_defs)
qed

end
